theory Spec2Isabelle
  imports Main "HOL-Library.Sublist"
begin

section \<open>Task Manager API (src/main.py)\<close>

text \<open>
  A shallow embedding of the route handlers of \<^verbatim>\<open>src/main.py\<close>. The table
  \<^verbatim>\<open>tasks\<close> is a list of rows in insertion order; every handler takes the table and
  returns its response together with the table after the request. The clock
  (\<^verbatim>\<open>datetime.utcnow\<close>) and the outcome of the connectivity probe are inputs.
  Python strings are lists of code points; the model covers the code points below 256,
  which is what \<^typ>\<open>char\<close> holds.
\<close>

subsection \<open>Strings\<close>

text \<open>\<^verbatim>\<open>str.isspace\<close> on the code points below 256.\<close>

definition isspace :: "char \<Rightarrow> bool" where
  "isspace c = (c \<in> set [CHR 0x09, CHR 0x0A, CHR 0x0B, CHR 0x0C, CHR 0x0D,
                           CHR 0x1C, CHR 0x1D, CHR 0x1E, CHR 0x1F, CHR 0x20,
                           CHR 0x85, CHR 0xA0])"

text \<open>\<^verbatim>\<open>str.strip()\<close>: whitespace removed at both ends.\<close>

definition strip :: "string \<Rightarrow> string" where
  "strip s = rev (dropWhile isspace (rev (dropWhile isspace s)))"

text \<open>Python's \<^verbatim>\<open>a or b\<close> on strings: the empty string is falsy.\<close>

definition str_or :: "string \<Rightarrow> string \<Rightarrow> string" where
  "str_or a b = (if a = [] then b else a)"

text \<open>
  The field patterns \<^verbatim>\<open>^(low|medium|high)$\<close> and \<^verbatim>\<open>^(open|in_progress|done)$\<close>:
  anchored alternatives of literals, so a string matches when it is one of them.
\<close>

definition priority_pattern :: "string \<Rightarrow> bool" where
  "priority_pattern s = (s \<in> set [''low'', ''medium'', ''high''])"

definition status_pattern :: "string \<Rightarrow> bool" where
  "status_pattern s = (s \<in> set [''open'', ''in_progress'', ''done''])"

subsection \<open>Data model\<close>

type_synonym date = int
type_synonym datetime = int

text \<open>The ORM class \<^verbatim>\<open>Task\<close>: one row of the table.\<close>

record Task =
  task_id :: int
  title :: string
  description :: string
  priority :: string
  status :: string
  due_date :: "date option"
  completed :: bool
  created_at :: datetime
  updated_at :: datetime

type_synonym db = "Task list"

text \<open>
  A field of a JSON request body: left out, sent as \<^verbatim>\<open>null\<close>, or sent with a value
  of the declared type.
\<close>

datatype 'a field = Absent | Null | Value 'a

record CreateBody =
  body_title :: "string field"
  body_description :: "string field"
  body_priority :: "string field"
  body_dueDate :: "date field"

record UpdateBody =
  patch_title :: "string field"
  patch_description :: "string field"
  patch_priority :: "string field"
  patch_status :: "string field"
  patch_dueDate :: "date field"
  patch_completed :: "bool field"

text \<open>The validated schemas \<^verbatim>\<open>TaskCreate\<close>, \<^verbatim>\<open>TaskUpdate\<close> and \<^verbatim>\<open>TaskOut\<close>.\<close>

record TaskCreate =
  c_title :: string
  c_description :: "string option"
  c_priority :: "string option"
  c_dueDate :: "date option"

record TaskUpdate =
  u_title :: "string option"
  u_description :: "string option"
  u_priority :: "string option"
  u_status :: "string option"
  u_dueDate :: "date option"
  u_completed :: "bool option"

record TaskOut =
  o_id :: int
  o_title :: string
  o_description :: string
  o_priority :: string
  o_status :: string
  o_dueDate :: "date option"
  o_completed :: bool
  o_createdAt :: datetime

datatype error = ValidationError | NotFound

fun status_code :: "error \<Rightarrow> nat" where
  "status_code ValidationError = 422"
| "status_code NotFound = 404"

subsection \<open>Schema validation\<close>

text \<open>
  An \<^verbatim>\<open>Optional\<close> field: a left-out field takes the declared default, \<^verbatim>\<open>null\<close>
  is \<^verbatim>\<open>None\<close>. Constraints are checked on supplied values only.
\<close>

fun optional :: "'a option \<Rightarrow> 'a field \<Rightarrow> 'a option" where
  "optional d Absent = d"
| "optional d Null = None"
| "optional d (Value v) = Some v"

fun constraint :: "('a \<Rightarrow> bool) \<Rightarrow> 'a field \<Rightarrow> bool" where
  "constraint P (Value v) = P v"
| "constraint P _ = True"

text \<open>A field that was sent with a value.\<close>

definition supplied :: "'a field \<Rightarrow> bool" where
  "supplied f = (case f of Value _ \<Rightarrow> True | _ \<Rightarrow> False)"

text \<open>\<^verbatim>\<open>Field(..., min_length=1, max_length=255)\<close>, on the string as sent.\<close>

definition title_length :: "string \<Rightarrow> bool" where
  "title_length s = (1 \<le> length s \<and> length s \<le> 255)"

definition parse_TaskCreate :: "CreateBody \<Rightarrow> error + TaskCreate" where
  "parse_TaskCreate b =
     (case body_title b of
        Value s \<Rightarrow>
          if title_length s \<and> constraint priority_pattern (body_priority b)
          then Inr \<lparr>c_title = s,
                    c_description = optional (Some []) (body_description b),
                    c_priority = optional (Some ''medium'') (body_priority b),
                    c_dueDate = optional None (body_dueDate b)\<rparr>
          else Inl ValidationError
      | _ \<Rightarrow> Inl ValidationError)"

definition parse_TaskUpdate :: "UpdateBody \<Rightarrow> error + TaskUpdate" where
  "parse_TaskUpdate b =
     (if constraint title_length (patch_title b)
         \<and> constraint priority_pattern (patch_priority b)
         \<and> constraint status_pattern (patch_status b)
      then Inr \<lparr>u_title = optional None (patch_title b),
                u_description = optional None (patch_description b),
                u_priority = optional None (patch_priority b),
                u_status = optional None (patch_status b),
                u_dueDate = optional None (patch_dueDate b),
                u_completed = optional None (patch_completed b)\<rparr>
      else Inl ValidationError)"

definition from_orm_task :: "Task \<Rightarrow> TaskOut" where
  "from_orm_task t =
     \<lparr>o_id = task_id t,
      o_title = title t,
      o_description = str_or (description t) [],
      o_priority = priority t,
      o_status = status t,
      o_dueDate = due_date t,
      o_completed = completed t,
      o_createdAt = created_at t\<rparr>"

subsection \<open>Table access\<close>

text \<open>\<^verbatim>\<open>db.query(Task).filter(Task.id == task_id).first()\<close>\<close>

definition get_task :: "int \<Rightarrow> db \<Rightarrow> Task option" where
  "get_task i rows = find (\<lambda>t. task_id t = i) rows"

text \<open>
  The integer primary key of a new row: one more than the largest key in the table,
  1 for an empty table.
\<close>

definition next_id :: "db \<Rightarrow> int" where
  "next_id rows = fold (\<lambda>t m. max (task_id t) m) rows 0 + 1"

subsection \<open>Create\<close>

definition new_task :: "TaskCreate \<Rightarrow> Task" where
  "new_task payload =
     \<lparr>task_id = 0,
      title = strip (c_title payload),
      description = strip (str_or (case c_description payload of None \<Rightarrow> [] | Some d \<Rightarrow> d) []),
      priority = (case c_priority payload of None \<Rightarrow> ''medium''
                  | Some p \<Rightarrow> str_or p ''medium''),
      status = ''open'',
      due_date = c_dueDate payload,
      completed = False,
      created_at = 0,
      updated_at = 0\<rparr>"

text \<open>\<^verbatim>\<open>db.add(t); db.commit(); db.refresh(t)\<close>: the insert fills key and timestamps.\<close>

definition insert_task :: "datetime \<Rightarrow> Task \<Rightarrow> db \<Rightarrow> Task" where
  "insert_task now t rows = t\<lparr>task_id := next_id rows, created_at := now, updated_at := now\<rparr>"

definition create_task :: "datetime \<Rightarrow> CreateBody \<Rightarrow> db \<Rightarrow> (error + TaskOut) \<times> db" where
  "create_task now body rows =
     (case parse_TaskCreate body of
        Inl e \<Rightarrow> (Inl e, rows)
      | Inr payload \<Rightarrow>
          (let t = insert_task now (new_task payload) rows
           in (Inr (from_orm_task t), rows @ [t])))"

subsection \<open>Partial update\<close>

text \<open>Lines 157 to 166: the plain assignments, in the order of the source.\<close>

definition assign_title :: "TaskUpdate \<Rightarrow> Task \<Rightarrow> Task" where
  "assign_title p t =
     (case u_title p of None \<Rightarrow> t | Some s \<Rightarrow> t\<lparr>title := str_or (strip s) (title t)\<rparr>)"

definition assign_description :: "TaskUpdate \<Rightarrow> Task \<Rightarrow> Task" where
  "assign_description p t =
     (case u_description p of None \<Rightarrow> t | Some d \<Rightarrow> t\<lparr>description := d\<rparr>)"

definition assign_priority :: "TaskUpdate \<Rightarrow> Task \<Rightarrow> Task" where
  "assign_priority p t =
     (case u_priority p of None \<Rightarrow> t | Some x \<Rightarrow> t\<lparr>priority := x\<rparr>)"

definition assign_status :: "TaskUpdate \<Rightarrow> Task \<Rightarrow> Task" where
  "assign_status p t =
     (case u_status p of None \<Rightarrow> t | Some x \<Rightarrow> t\<lparr>status := x\<rparr>)"

definition assign_dueDate :: "TaskUpdate \<Rightarrow> Task \<Rightarrow> Task" where
  "assign_dueDate p t =
     (case u_dueDate p of None \<Rightarrow> t | Some d \<Rightarrow> t\<lparr>due_date := Some d\<rparr>)"

definition assign_fields :: "TaskUpdate \<Rightarrow> Task \<Rightarrow> Task" where
  "assign_fields p t =
     assign_dueDate p (assign_status p (assign_priority p
       (assign_description p (assign_title p t))))"

text \<open>Lines 167 to 173: the completed flag and its effect on the status.\<close>

definition toggle_completed :: "TaskUpdate \<Rightarrow> Task \<Rightarrow> Task" where
  "toggle_completed p t =
     (case u_completed p of
        None \<Rightarrow> t
      | Some c \<Rightarrow>
          (let t1 = t\<lparr>completed := c\<rparr>;
               t2 = (if completed t1 \<and> status t1 \<noteq> ''done''
                     then t1\<lparr>status := ''done''\<rparr> else t1);
               t3 = (if \<not> completed t2 \<and> status t2 = ''done''
                     then t2\<lparr>status := ''open''\<rparr> else t2)
           in t3))"

definition apply_update :: "TaskUpdate \<Rightarrow> Task \<Rightarrow> Task" where
  "apply_update p t = toggle_completed p (assign_fields p t)"

text \<open>
  \<^verbatim>\<open>db.commit()\<close>: the row is written, and \<^verbatim>\<open>onupdate\<close> refreshes
  \<^verbatim>\<open>updated_at\<close>, when a column has a new value.
\<close>

definition commit_task :: "datetime \<Rightarrow> Task \<Rightarrow> Task \<Rightarrow> Task" where
  "commit_task now old t = (if t = old then old else t\<lparr>updated_at := now\<rparr>)"

definition write_task :: "Task \<Rightarrow> db \<Rightarrow> db" where
  "write_task t rows = map (\<lambda>r. if task_id r = task_id t then t else r) rows"

definition update_task ::
  "datetime \<Rightarrow> int \<Rightarrow> UpdateBody \<Rightarrow> db \<Rightarrow> (error + TaskOut) \<times> db" where
  "update_task now i body rows =
     (case parse_TaskUpdate body of
        Inl e \<Rightarrow> (Inl e, rows)
      | Inr payload \<Rightarrow>
          (case get_task i rows of
             None \<Rightarrow> (Inl NotFound, rows)
           | Some t \<Rightarrow>
               (let t' = commit_task now t (apply_update payload t)
                in (Inr (from_orm_task t'), write_task t' rows))))"

subsection \<open>Delete\<close>

text \<open>\<^verbatim>\<open>db.delete(t); db.commit()\<close> deletes by primary key; the handler returns \<^verbatim>\<open>None\<close>.\<close>

definition delete_task :: "int \<Rightarrow> db \<Rightarrow> (error + unit) \<times> db" where
  "delete_task i rows =
     (case get_task i rows of
        None \<Rightarrow> (Inl NotFound, rows)
      | Some t \<Rightarrow> (Inr (), filter (\<lambda>r. task_id r \<noteq> task_id t) rows))"

subsection \<open>List\<close>

text \<open>
  The SQL operator \<^verbatim>\<open>LIKE\<close>, pattern first: \<^verbatim>\<open>%\<close> stands for any run of
  characters, \<^verbatim>\<open>_\<close> for any one character, every other character for itself.
  No escape character is declared, as in the default datastore (SQLite).
\<close>

fun like :: "string \<Rightarrow> string \<Rightarrow> bool" where
  "like [] [] = True"
| "like [] (c # cs) = False"
| "like (p # ps) [] = (p = CHR ''%'' \<and> like ps [])"
| "like (p # ps) (c # cs) =
     (if p = CHR ''%'' then like ps (c # cs) \<or> like (p # ps) cs
      else (p = CHR ''_'' \<or> p = c) \<and> like ps cs)"

text \<open>SQL \<^verbatim>\<open>lower\<close>: the letters A to Z are folded, nothing else.\<close>

definition lower :: "char \<Rightarrow> char" where
  "lower c =
     (case map_of (zip ''ABCDEFGHIJKLMNOPQRSTUVWXYZ'' ''abcdefghijklmnopqrstuvwxyz'') c of
        None \<Rightarrow> c
      | Some l \<Rightarrow> l)"

text \<open>\<^verbatim>\<open>column.ilike(pattern)\<close>, rendered as \<^verbatim>\<open>lower(column) LIKE lower(pattern)\<close>.\<close>

definition ilike :: "string \<Rightarrow> string \<Rightarrow> bool" where
  "ilike column pattern = like (map lower pattern) (map lower column)"

record ListQuery =
  q :: "string option"
  status_param :: "string option"
  priority_param :: "string option"
  show_completed :: "bool option"
  limit :: "int option"

fun param_default :: "'a \<Rightarrow> 'a option \<Rightarrow> 'a" where
  "param_default d None = d"
| "param_default d (Some v) = v"

text \<open>The declared constraints of the query parameters.\<close>

definition check_ListQuery :: "ListQuery \<Rightarrow> bool" where
  "check_ListQuery p =
     ((case status_param p of None \<Rightarrow> True | Some s \<Rightarrow> status_pattern s)
      \<and> (case priority_param p of None \<Rightarrow> True | Some s \<Rightarrow> priority_pattern s)
      \<and> 1 \<le> param_default 200 (limit p) \<and> param_default 200 (limit p) \<le> 1000)"

text \<open>Lines 120 to 128: one filter per supplied (truthy) criterion.\<close>

definition filter_q :: "ListQuery \<Rightarrow> db \<Rightarrow> db" where
  "filter_q p rows =
     (case q p of
        None \<Rightarrow> rows
      | Some s \<Rightarrow>
          if s = [] then rows
          else (let pat = ''%'' @ s @ ''%''
                in filter (\<lambda>t. ilike (title t) pat \<or> ilike (description t) pat) rows))"

definition filter_status :: "ListQuery \<Rightarrow> db \<Rightarrow> db" where
  "filter_status p rows =
     (case status_param p of
        None \<Rightarrow> rows
      | Some s \<Rightarrow> if s = [] then rows else filter (\<lambda>t. status t = s) rows)"

definition filter_priority :: "ListQuery \<Rightarrow> db \<Rightarrow> db" where
  "filter_priority p rows =
     (case priority_param p of
        None \<Rightarrow> rows
      | Some s \<Rightarrow> if s = [] then rows else filter (\<lambda>t. priority t = s) rows)"

definition filter_completed :: "ListQuery \<Rightarrow> db \<Rightarrow> db" where
  "filter_completed p rows =
     (if \<not> param_default True (show_completed p) then filter (\<lambda>t. completed t = False) rows
      else rows)"

text \<open>
  \<^verbatim>\<open>order_by(Task.created_at.desc()).limit(limit)\<close>; rows created at the same time
  stay in table order.
\<close>

definition order_by_created_at_desc :: "db \<Rightarrow> db" where
  "order_by_created_at_desc rows = sort_key (\<lambda>t. - created_at t) rows"

definition select_tasks :: "ListQuery \<Rightarrow> db \<Rightarrow> db" where
  "select_tasks p rows =
     take (nat (param_default 200 (limit p)))
       (order_by_created_at_desc
          (filter_completed p (filter_priority p (filter_status p (filter_q p rows)))))"

definition list_tasks :: "ListQuery \<Rightarrow> db \<Rightarrow> error + TaskOut list" where
  "list_tasks p rows =
     (if check_ListQuery p then Inr (map from_orm_task (select_tasks p rows))
      else Inl ValidationError)"

subsection \<open>The list filter as specified\<close>

text \<open>
  The list filter in the words of the specification: the free-text query is, with the
  letters A to Z folded, a substring of the title or of the description; status and
  priority are equal to the ones asked for; completed tasks are left out when
  \<^verbatim>\<open>show_completed\<close> is false.
\<close>

definition spec_matches :: "ListQuery \<Rightarrow> Task \<Rightarrow> bool" where
  "spec_matches p t =
     ((case q p of
         None \<Rightarrow> True
       | Some s \<Rightarrow> sublist (map lower s) (map lower (title t))
                   \<or> sublist (map lower s) (map lower (description t)))
      \<and> (case status_param p of None \<Rightarrow> True | Some s \<Rightarrow> status t = s)
      \<and> (case priority_param p of None \<Rightarrow> True | Some s \<Rightarrow> priority t = s)
      \<and> (param_default True (show_completed p) \<or> \<not> completed t))"

text \<open>A query text without the two pattern characters of \<^verbatim>\<open>LIKE\<close>.\<close>

definition plain :: "string \<Rightarrow> bool" where
  "plain s = (CHR ''%'' \<notin> set s \<and> CHR ''_'' \<notin> set s)"

subsection \<open>Diagnostic probe\<close>

text \<open>
  What \<^verbatim>\<open>engine.connect()\<close> and \<^verbatim>\<open>conn.execute\<close> did: they returned, or one of
  them raised an exception \<open>e\<close>, given by \<^verbatim>\<open>str(e)\<close>.
\<close>

datatype probe = Returned | Raised string

record Info =
  backend :: string
  database_url :: string
  driver :: string
  database :: string

definition test_database :: "string \<Rightarrow> string \<Rightarrow> probe \<Rightarrow> error + Info" where
  "test_database url dialect outcome =
     (let info = \<lparr>backend = ''running'', database_url = url, driver = dialect, database = []\<rparr>;
          info' = (case outcome of
                     Returned \<Rightarrow> info\<lparr>database := ''connected''\<rparr>
                   | Raised e \<Rightarrow> info\<lparr>database := ''error: '' @ take 120 e\<rparr>)
      in Inr info')"

subsection \<open>Status codes of the routes\<close>

datatype route = Read_root | List_tasks | Create_task | Update_task | Delete_task | Test_database

fun success_code :: "route \<Rightarrow> nat" where
  "success_code Create_task = 201"
| "success_code Delete_task = 204"
| "success_code _ = 200"

definition response_code :: "route \<Rightarrow> error + 'a \<Rightarrow> nat" where
  "response_code r res = (case res of Inl e \<Rightarrow> status_code e | Inr _ \<Rightarrow> success_code r)"

subsection \<open>Example data\<close>

definition task1 :: Task where
  "task1 = \<lparr>task_id = 1, title = ''Buy milk'', description = [], priority = ''high'',
            status = ''in_progress'', due_date = Some 20000, completed = False,
            created_at = 100, updated_at = 100\<rparr>"

definition task2 :: Task where
  "task2 = \<lparr>task_id = 2, title = ''Write report'', description = ''Quarterly figures'',
            priority = ''medium'', status = ''done'', due_date = None, completed = True,
            created_at = 150, updated_at = 180\<rparr>"

definition no_patch :: UpdateBody where
  "no_patch = \<lparr>patch_title = Absent, patch_description = Absent, patch_priority = Absent,
               patch_status = Absent, patch_dueDate = Absent, patch_completed = Absent\<rparr>"

definition patch_done_open :: UpdateBody where
  "patch_done_open = no_patch\<lparr>patch_status := Value ''open'', patch_completed := Value True\<rparr>"

definition patch_reopen :: UpdateBody where
  "patch_reopen = no_patch\<lparr>patch_status := Value ''done'', patch_completed := Value False\<rparr>"

definition patch_dueDate_null :: UpdateBody where
  "patch_dueDate_null = no_patch\<lparr>patch_dueDate := Null\<rparr>"



definition patch_complete :: UpdateBody where
  "patch_complete = no_patch\<lparr>patch_completed := Value True\<rparr>"

definition patch_status_done :: UpdateBody where
  "patch_status_done = no_patch\<lparr>patch_status := Value ''done''\<rparr>"




definition create_blank :: CreateBody where
  "create_blank = \<lparr>body_title = Value ''   '', body_description = Absent,
                    body_priority = Absent, body_dueDate = Absent\<rparr>"

definition query_all :: ListQuery where
  "query_all = \<lparr>q = None, status_param = None, priority_param = None,
                show_completed = None, limit = None\<rparr>"

definition query_underscore :: ListQuery where
  "query_underscore = query_all\<lparr>q := Some ''_''\<rparr>"

definition query_milk :: ListQuery where
  "query_milk = query_all\<lparr>q := Some ''MILK'', status_param := Some ''in_progress'',
                           show_completed := Some False\<rparr>"

lemmas update_defs =
  update_task_def parse_TaskUpdate_def get_task_def commit_task_def write_task_def
  apply_update_def toggle_completed_def assign_fields_def assign_title_def
  assign_description_def assign_priority_def assign_status_def assign_dueDate_def
  from_orm_task_def str_or_def strip_def isspace_def title_length_def
  priority_pattern_def status_pattern_def

section \<open>Properties\<close>

subsection \<open>Successful updates\<close>

lemma update_task_success:
  assumes "update_task now i body rows = (Inr out, rows')"
  obtains payload t where
    "parse_TaskUpdate body = Inr payload"
    "get_task i rows = Some t"
    "out = from_orm_task (commit_task now t (apply_update payload t))"
    "rows' = write_task (commit_task now t (apply_update payload t)) rows"
  using assms
  by (auto simp: update_task_def Let_def split: sum.splits option.splits)

lemma parse_TaskUpdate_fields:
  assumes "parse_TaskUpdate body = Inr payload"
  shows "u_title payload = optional None (patch_title body)"
    and "u_description payload = optional None (patch_description body)"
    and "u_priority payload = optional None (patch_priority body)"
    and "u_status payload = optional None (patch_status body)"
    and "u_dueDate payload = optional None (patch_dueDate body)"
    and "u_completed payload = optional None (patch_completed body)"
  using assms by (auto simp: parse_TaskUpdate_def split: if_splits)

lemma commit_task_fields [simp]:
  "task_id (commit_task now old t) = task_id t"
  "title (commit_task now old t) = title t"
  "description (commit_task now old t) = description t"
  "priority (commit_task now old t) = priority t"
  "status (commit_task now old t) = status t"
  "due_date (commit_task now old t) = due_date t"
  "completed (commit_task now old t) = completed t"
  "created_at (commit_task now old t) = created_at t"
  by (auto simp: commit_task_def)

lemma from_orm_task_fields [simp]:
  "o_id (from_orm_task t) = task_id t"
  "o_title (from_orm_task t) = title t"
  "o_description (from_orm_task t) = description t"
  "o_priority (from_orm_task t) = priority t"
  "o_status (from_orm_task t) = status t"
  "o_dueDate (from_orm_task t) = due_date t"
  "o_completed (from_orm_task t) = completed t"
  "o_createdAt (from_orm_task t) = created_at t"
  by (simp_all add: from_orm_task_def str_or_def)

lemma status_assign_fields:
  "status (assign_fields p t) = (case u_status p of None \<Rightarrow> status t | Some s \<Rightarrow> s)"
  by (simp add: assign_fields_def assign_dueDate_def assign_status_def assign_priority_def
      assign_description_def assign_title_def split: option.splits)

lemma status_toggle_completed:
  "status (toggle_completed p t) =
     (case u_completed p of
        None \<Rightarrow> status t
      | Some True \<Rightarrow> ''done''
      | Some False \<Rightarrow> if status t = ''done'' then ''open'' else status t)"
  by (simp add: toggle_completed_def Let_def split: option.splits bool.splits)

lemma completed_toggle_completed:
  "completed (toggle_completed p t) = (case u_completed p of None \<Rightarrow> completed t | Some c \<Rightarrow> c)"
  by (simp add: toggle_completed_def Let_def split: option.splits)

lemma task_id_apply_update [simp]: "task_id (apply_update p t) = task_id t"
  by (simp add: apply_update_def toggle_completed_def Let_def assign_fields_def assign_dueDate_def assign_status_def assign_priority_def
      assign_description_def assign_title_def split: option.splits)

lemma get_task_id: "get_task i rows = Some t \<Longrightarrow> task_id t = i"
  by (auto simp: get_task_def find_Some_iff)

lemma get_task_write_task:
  "get_task i rows = Some t \<Longrightarrow> task_id t' = i \<Longrightarrow> get_task i (write_task t' rows) = Some t'"
  by (induction rows) (auto simp: get_task_def write_task_def)

lemma update_task_stored:
  assumes "update_task now i body rows = (Inr out, rows')"
  shows "\<exists>t'. get_task i rows' = Some t' \<and> out = from_orm_task t'"
proof -
  from assms obtain payload t where
    t: "get_task i rows = Some t" and
    out: "out = from_orm_task (commit_task now t (apply_update payload t))" and
    rows': "rows' = write_task (commit_task now t (apply_update payload t)) rows"
    by (rule update_task_success)
  have "task_id (commit_task now t (apply_update payload t)) = i"
    using get_task_id [OF t] by simp
  with t have "get_task i rows' = Some (commit_task now t (apply_update payload t))"
    unfolding rows' by (rule get_task_write_task)
  with out show ?thesis by blast
qed

subsection \<open>The completed flag and the status\<close>

text \<open>
  C2: in a successful partial update that supplies \<open>completed\<close>, the value true makes
  the resulting status \<open>done\<close> whatever status the same request supplied, and the value
  false turns a status that is \<open>done\<close> after the explicit assignment into \<open>open\<close>. The
  returned representation is the row that is stored.
\<close>

theorem update_completed_forces_status:
  assumes "update_task now i body rows = (Inr out, rows')"
      and "get_task i rows = Some t"
  shows "(patch_completed body = Value True \<longrightarrow> o_status out = ''done'')
       \<and> (patch_completed body = Value False
            \<and> (case patch_status body of Value s \<Rightarrow> s | _ \<Rightarrow> status t) = ''done''
          \<longrightarrow> o_status out = ''open'')
       \<and> (\<exists>t'. get_task i rows' = Some t' \<and> status t' = o_status out)"
proof -
  from assms(1) obtain payload t0 where
    p: "parse_TaskUpdate body = Inr payload" and
    t0: "get_task i rows = Some t0" and
    out: "out = from_orm_task (commit_task now t0 (apply_update payload t0))"
    by (rule update_task_success)
  from t0 assms(2) have [simp]: "t0 = t" by simp
  have st: "o_status out = status (toggle_completed payload (assign_fields payload t))"
    using out by (simp add: apply_update_def)
  have c: "u_completed payload = optional None (patch_completed body)"
    and s: "u_status payload = optional None (patch_status body)"
    using parse_TaskUpdate_fields [OF p] by simp_all
  have a: "patch_completed body = Value True \<longrightarrow> o_status out = ''done''"
    using st c by (simp add: status_toggle_completed)
  have "status (assign_fields payload t) = (case patch_status body of Value s \<Rightarrow> s | _ \<Rightarrow> status t)"
    using s by (cases "patch_status body") (simp_all add: status_assign_fields)
  then have b: "patch_completed body = Value False
            \<and> (case patch_status body of Value s \<Rightarrow> s | _ \<Rightarrow> status t) = ''done''
          \<longrightarrow> o_status out = ''open''"
    using st c by (simp add: status_toggle_completed)
  from update_task_stored [OF assms(1)]
  have "\<exists>t'. get_task i rows' = Some t' \<and> status t' = o_status out" by auto
  with a b show ?thesis by blast
qed

theorem update_completed_forces_status_witness:
  "update_task 200 1 patch_done_open [task1, task2] =
     (Inr (from_orm_task (task1\<lparr>status := ''done'', completed := True, updated_at := 200\<rparr>)),
      [task1\<lparr>status := ''done'', completed := True, updated_at := 200\<rparr>, task2])
   \<and> patch_status patch_done_open = Value ''open''
   \<and> patch_completed patch_done_open = Value True
   \<and> o_status (from_orm_task
         (task1\<lparr>status := ''done'', completed := True, updated_at := 200\<rparr>)) = ''done''
   \<and> update_task 200 2 patch_reopen [task1, task2] =
     (Inr (from_orm_task (task2\<lparr>status := ''open'', completed := False, updated_at := 200\<rparr>)),
      [task1, task2\<lparr>status := ''open'', completed := False, updated_at := 200\<rparr>])
   \<and> patch_status patch_reopen = Value ''done''
   \<and> patch_completed patch_reopen = Value False
   \<and> o_status (from_orm_task
         (task2\<lparr>status := ''open'', completed := False, updated_at := 200\<rparr>)) = ''open''"
proof -
  have u1: "update_task 200 1 patch_done_open [task1, task2] =
     (Inr (from_orm_task (task1\<lparr>status := ''done'', completed := True, updated_at := 200\<rparr>)),
      [task1\<lparr>status := ''done'', completed := True, updated_at := 200\<rparr>, task2])"
    by (simp add: update_defs task1_def task2_def patch_done_open_def no_patch_def)
  have g1: "get_task 1 [task1, task2] = Some task1"
    by (simp add: get_task_def task1_def)
  have u2: "update_task 200 2 patch_reopen [task1, task2] =
     (Inr (from_orm_task (task2\<lparr>status := ''open'', completed := False, updated_at := 200\<rparr>)),
      [task1, task2\<lparr>status := ''open'', completed := False, updated_at := 200\<rparr>])"
    by (simp add: update_defs task1_def task2_def patch_reopen_def no_patch_def)
  have g2: "get_task 2 [task1, task2] = Some task2"
    by (simp add: get_task_def task1_def task2_def)
  have s1: "patch_status patch_done_open = Value ''open''"
    and c1: "patch_completed patch_done_open = Value True"
    by (simp_all add: patch_done_open_def no_patch_def)
  have s2: "patch_status patch_reopen = Value ''done''"
    and c2: "patch_completed patch_reopen = Value False"
    by (simp_all add: patch_reopen_def no_patch_def)
  from update_completed_forces_status [OF u1 g1] c1
  have r1: "o_status (from_orm_task
         (task1\<lparr>status := ''done'', completed := True, updated_at := 200\<rparr>)) = ''done''"
    by blast
  from update_completed_forces_status [OF u2 g2] c2 s2
  have r2: "o_status (from_orm_task
         (task2\<lparr>status := ''open'', completed := False, updated_at := 200\<rparr>)) = ''open''"
    by simp
  from u1 s1 c1 r1 u2 s2 c2 r2 show ?thesis by blast
qed

text \<open>
  C3: after a successful partial update that supplies \<open>completed\<close>, the task is completed
  exactly when its status is \<open>done\<close>, in the returned representation and in the stored row.
\<close>

theorem update_completed_iff_done:
  assumes "update_task now i body rows = (Inr out, rows')"
      and "patch_completed body = Value c"
  shows "(o_completed out \<longleftrightarrow> o_status out = ''done'')
       \<and> (\<exists>t'. get_task i rows' = Some t' \<and> (completed t' \<longleftrightarrow> status t' = ''done''))"
proof -
  from assms(1) obtain payload t where
    p: "parse_TaskUpdate body = Inr payload" and
    out: "out = from_orm_task (commit_task now t (apply_update payload t))"
    by (rule update_task_success)
  have c: "u_completed payload = Some c"
    using parse_TaskUpdate_fields(6) [OF p] assms(2) by simp
  have a: "o_completed out \<longleftrightarrow> o_status out = ''done''"
    using out c
    by (cases c) (simp_all add: apply_update_def status_toggle_completed completed_toggle_completed)
  from update_task_stored [OF assms(1)] obtain t' where
    "get_task i rows' = Some t'" "out = from_orm_task t'" by blast
  with a have "get_task i rows' = Some t' \<and> (completed t' \<longleftrightarrow> status t' = ''done'')"
    by simp
  with a show ?thesis by blast
qed

theorem update_completed_iff_done_witness:
  "update_task 200 1 patch_done_open [task1, task2] =
     (Inr (from_orm_task (task1\<lparr>status := ''done'', completed := True, updated_at := 200\<rparr>)),
      [task1\<lparr>status := ''done'', completed := True, updated_at := 200\<rparr>, task2])
   \<and> patch_completed patch_done_open = Value True
   \<and> (o_completed (from_orm_task
          (task1\<lparr>status := ''done'', completed := True, updated_at := 200\<rparr>))
        \<longleftrightarrow> o_status (from_orm_task
          (task1\<lparr>status := ''done'', completed := True, updated_at := 200\<rparr>)) = ''done'')"
proof -
  have u1: "update_task 200 1 patch_done_open [task1, task2] =
     (Inr (from_orm_task (task1\<lparr>status := ''done'', completed := True, updated_at := 200\<rparr>)),
      [task1\<lparr>status := ''done'', completed := True, updated_at := 200\<rparr>, task2])"
    by (simp add: update_defs task1_def task2_def patch_done_open_def no_patch_def)
  have c1: "patch_completed patch_done_open = Value True"
    by (simp add: patch_done_open_def no_patch_def)
  from update_completed_iff_done [OF u1 c1] u1 c1 show ?thesis by blast
qed

lemmas assign_defs = assign_fields_def assign_dueDate_def assign_status_def assign_priority_def
      assign_description_def assign_title_def

lemma apply_update_fields:
  "title (apply_update p t) = (case u_title p of None \<Rightarrow> title t | Some s \<Rightarrow> str_or (strip s) (title t))"
  "description (apply_update p t) = (case u_description p of None \<Rightarrow> description t | Some d \<Rightarrow> d)"
  "priority (apply_update p t) = (case u_priority p of None \<Rightarrow> priority t | Some x \<Rightarrow> x)"
  "due_date (apply_update p t) = (case u_dueDate p of None \<Rightarrow> due_date t | Some d \<Rightarrow> Some d)"
  "completed (apply_update p t) = (case u_completed p of None \<Rightarrow> completed t | Some c \<Rightarrow> c)"
  "created_at (apply_update p t) = created_at t"
  by (simp_all add: apply_update_def toggle_completed_def Let_def assign_defs split: option.splits)

lemma status_apply_update:
  "status (apply_update p t) =
     (case u_completed p of
        None \<Rightarrow> (case u_status p of None \<Rightarrow> status t | Some s \<Rightarrow> s)
      | Some True \<Rightarrow> ''done''
      | Some False \<Rightarrow> (let s = (case u_status p of None \<Rightarrow> status t | Some s \<Rightarrow> s)
                        in if s = ''done'' then ''open'' else s))"
  by (simp add: apply_update_def status_toggle_completed status_assign_fields Let_def
      split: option.splits bool.splits)

lemma optional_None_iff: "optional None f = None \<longleftrightarrow> \<not> supplied f"
  by (cases f) (simp_all add: supplied_def)


lemma get_task_write_task_other:
  "j \<noteq> task_id t' \<Longrightarrow> get_task j (write_task t' rows) = get_task j rows"
  by (induction rows) (auto simp: get_task_def write_task_def)

subsection \<open>The due date\<close>

text \<open>
  C10: a partial update cannot clear a due date. A body that sends \<open>dueDate\<close> as null is
  handled as the body that leaves it out; after a successful update the due date is the
  supplied date, or the prior one when none was supplied, so a due date that was set
  stays set.
\<close>

theorem update_never_clears_dueDate:
  "update_task now i (body\<lparr>patch_dueDate := Null\<rparr>) rows
     = update_task now i (body\<lparr>patch_dueDate := Absent\<rparr>) rows
   \<and> (update_task now i body rows = (Inr out, rows') \<and> get_task i rows = Some t
        \<longrightarrow> o_dueDate out = (case patch_dueDate body of Value d \<Rightarrow> Some d | _ \<Rightarrow> due_date t)
          \<and> (due_date t \<noteq> None \<longrightarrow> o_dueDate out \<noteq> None)
          \<and> (\<exists>t'. get_task i rows' = Some t' \<and> due_date t' = o_dueDate out))"
proof -
  have a: "update_task now i (body\<lparr>patch_dueDate := Null\<rparr>) rows
     = update_task now i (body\<lparr>patch_dueDate := Absent\<rparr>) rows"
    by (simp add: update_task_def parse_TaskUpdate_def)
  have b: "o_dueDate out = (case patch_dueDate body of Value d \<Rightarrow> Some d | _ \<Rightarrow> due_date t)
          \<and> (due_date t \<noteq> None \<longrightarrow> o_dueDate out \<noteq> None)
          \<and> (\<exists>t'. get_task i rows' = Some t' \<and> due_date t' = o_dueDate out)"
    if u: "update_task now i body rows = (Inr out, rows')" and g: "get_task i rows = Some t"
  proof -
    from u obtain payload t0 where
      p: "parse_TaskUpdate body = Inr payload" and
      t0: "get_task i rows = Some t0" and
      out: "out = from_orm_task (commit_task now t0 (apply_update payload t0))"
      by (rule update_task_success)
    from t0 g have [simp]: "t0 = t" by simp
    have d: "u_dueDate payload = optional None (patch_dueDate body)"
      using parse_TaskUpdate_fields(5) [OF p] .
    have 1: "o_dueDate out = (case patch_dueDate body of Value d \<Rightarrow> Some d | _ \<Rightarrow> due_date t)"
      using out d by (cases "patch_dueDate body") (simp_all add: apply_update_fields)
    then have 2: "due_date t \<noteq> None \<longrightarrow> o_dueDate out \<noteq> None"
      by (cases "patch_dueDate body") simp_all
    from update_task_stored [OF u]
    have 3: "\<exists>t'. get_task i rows' = Some t' \<and> due_date t' = o_dueDate out" by auto
    from 1 2 3 show ?thesis by blast
  qed
  from a b show ?thesis by blast
qed

theorem update_never_clears_dueDate_witness:
  "update_task 200 1 patch_dueDate_null [task1, task2] = (Inr (from_orm_task task1), [task1, task2])
   \<and> get_task 1 [task1, task2] = Some task1
   \<and> due_date task1 = Some 20000
   \<and> o_dueDate (from_orm_task task1) = Some 20000"
proof -
  have u: "update_task 200 1 patch_dueDate_null [task1, task2]
             = (Inr (from_orm_task task1), [task1, task2])"
    by (simp add: update_defs task1_def task2_def patch_dueDate_null_def no_patch_def)
  have g: "get_task 1 [task1, task2] = Some task1"
    by (simp add: get_task_def task1_def)
  have n: "patch_dueDate patch_dueDate_null = Null"
    by (simp add: patch_dueDate_null_def no_patch_def)
  have d: "due_date task1 = Some 20000"
    by (simp add: task1_def)
  from update_never_clears_dueDate
         [of 200 1 patch_dueDate_null "[task1, task2]" "from_orm_task task1" "[task1, task2]" task1]
       u g n d
  have "o_dueDate (from_orm_task task1) = Some 20000" by simp
  with u g d show ?thesis by blast
qed

subsection \<open>The title in a partial update\<close>





subsection \<open>Fields that a partial update leaves alone\<close>

text \<open>
  C5 as stated fails: a request that supplies only \<open>completed = true\<close> leaves the status
  out, and yet the status of the task changes, from \<open>in_progress\<close> to \<open>done\<close>.
\<close>

theorem update_absent_status_counterexample:
  "patch_status patch_complete = Absent
   \<and> get_task 1 [task1] = Some task1
   \<and> status task1 = ''in_progress''
   \<and> (\<exists>out rows'. update_task 200 1 patch_complete [task1] = (Inr out, rows')
         \<and> o_status out = ''done'' \<and> o_status out \<noteq> status task1)"
  by (simp add: update_defs task1_def patch_complete_def no_patch_def)

text \<open>
  C5, amended: after a successful partial update the id and the creation time are the
  prior ones, and every field among title, description, priority, due date and completed
  that the body leaves out (or sends as null) keeps its prior value; the status keeps its
  prior value when the body supplies neither status nor completed. A request that sets
  the status to \<open>done\<close> without supplying completed leaves completed as it was. The row
  returned is the row stored, and the other rows are untouched.
\<close>

theorem update_absent_fields_kept:
  assumes "update_task now i body rows = (Inr out, rows')"
      and "get_task i rows = Some t"
  shows "o_id out = task_id t \<and> o_createdAt out = created_at t
       \<and> (\<not> supplied (patch_title body) \<longrightarrow> o_title out = title t)
       \<and> (\<not> supplied (patch_description body) \<longrightarrow> o_description out = description t)
       \<and> (\<not> supplied (patch_priority body) \<longrightarrow> o_priority out = priority t)
       \<and> (\<not> supplied (patch_dueDate body) \<longrightarrow> o_dueDate out = due_date t)
       \<and> (\<not> supplied (patch_completed body) \<longrightarrow> o_completed out = completed t)
       \<and> (\<not> supplied (patch_status body) \<and> \<not> supplied (patch_completed body)
            \<longrightarrow> o_status out = status t)
       \<and> (patch_status body = Value ''done'' \<and> \<not> supplied (patch_completed body)
            \<longrightarrow> o_status out = ''done'' \<and> o_completed out = completed t)
       \<and> (\<exists>t'. get_task i rows' = Some t' \<and> out = from_orm_task t')
       \<and> (\<forall>j. j \<noteq> i \<longrightarrow> get_task j rows' = get_task j rows)"
proof -
  from assms(1) obtain payload t0 where
    p: "parse_TaskUpdate body = Inr payload" and
    t0: "get_task i rows = Some t0" and
    out: "out = from_orm_task (commit_task now t0 (apply_update payload t0))" and
    rows': "rows' = write_task (commit_task now t0 (apply_update payload t0)) rows"
    by (rule update_task_success)
  from t0 assms(2) have [simp]: "t0 = t" by simp
  note f = parse_TaskUpdate_fields [OF p]
  have ident: "o_id out = task_id t \<and> o_createdAt out = created_at t"
    using out by (simp add: apply_update_fields)
  have ti: "\<not> supplied (patch_title body) \<longrightarrow> o_title out = title t"
    using out f(1) by (simp add: apply_update_fields optional_None_iff [symmetric])
  have de: "\<not> supplied (patch_description body) \<longrightarrow> o_description out = description t"
    using out f(2) by (simp add: apply_update_fields optional_None_iff [symmetric])
  have pr: "\<not> supplied (patch_priority body) \<longrightarrow> o_priority out = priority t"
    using out f(3) by (simp add: apply_update_fields optional_None_iff [symmetric])
  have du: "\<not> supplied (patch_dueDate body) \<longrightarrow> o_dueDate out = due_date t"
    using out f(5) by (simp add: apply_update_fields optional_None_iff [symmetric])
  have co: "\<not> supplied (patch_completed body) \<longrightarrow> o_completed out = completed t"
    using out f(6) by (simp add: apply_update_fields optional_None_iff [symmetric])
  have st: "\<not> supplied (patch_status body) \<and> \<not> supplied (patch_completed body)
            \<longrightarrow> o_status out = status t"
    using out f(4) f(6) by (simp add: status_apply_update optional_None_iff [symmetric])
  have sd: "patch_status body = Value ''done'' \<and> \<not> supplied (patch_completed body)
            \<longrightarrow> o_status out = ''done'' \<and> o_completed out = completed t"
    using out f(4) f(6) co by (simp add: status_apply_update optional_None_iff [symmetric])
  have row: "\<exists>t'. get_task i rows' = Some t' \<and> out = from_orm_task t'"
    using assms(1) by (rule update_task_stored)
  have "task_id (commit_task now t (apply_update payload t)) = i"
    using get_task_id [OF assms(2)] by simp
  then have others: "\<forall>j. j \<noteq> i \<longrightarrow> get_task j rows' = get_task j rows"
    unfolding rows' by (simp add: get_task_write_task_other)
  from ident ti de pr du co st sd row others show ?thesis by blast
qed

theorem update_absent_fields_kept_witness:
  "update_task 200 1 patch_status_done [task1, task2] =
     (Inr (from_orm_task (task1\<lparr>status := ''done'', updated_at := 200\<rparr>)),
      [task1\<lparr>status := ''done'', updated_at := 200\<rparr>, task2])
   \<and> get_task 1 [task1, task2] = Some task1
   \<and> patch_status patch_status_done = Value ''done''
   \<and> \<not> supplied (patch_completed patch_status_done)
   \<and> o_status (from_orm_task (task1\<lparr>status := ''done'', updated_at := 200\<rparr>)) = ''done''
   \<and> o_completed (from_orm_task (task1\<lparr>status := ''done'', updated_at := 200\<rparr>))
       = completed task1
   \<and> o_title (from_orm_task (task1\<lparr>status := ''done'', updated_at := 200\<rparr>)) = title task1
   \<and> get_task 2 [task1\<lparr>status := ''done'', updated_at := 200\<rparr>, task2]
       = get_task 2 [task1, task2]"
proof -
  have u: "update_task 200 1 patch_status_done [task1, task2] =
     (Inr (from_orm_task (task1\<lparr>status := ''done'', updated_at := 200\<rparr>)),
      [task1\<lparr>status := ''done'', updated_at := 200\<rparr>, task2])"
    by (simp add: update_defs task1_def task2_def patch_status_done_def no_patch_def)
  have g: "get_task 1 [task1, task2] = Some task1"
    by (simp add: get_task_def task1_def)
  have s: "patch_status patch_status_done = Value ''done''"
    and c: "\<not> supplied (patch_completed patch_status_done)"
    and n: "\<not> supplied (patch_title patch_status_done)"
    by (simp_all add: patch_status_done_def no_patch_def supplied_def)
  have ne: "(2::int) \<noteq> 1" by simp
  from update_absent_fields_kept [OF u g] s c n ne
  have "o_status (from_orm_task (task1\<lparr>status := ''done'', updated_at := 200\<rparr>)) = ''done''
   \<and> o_completed (from_orm_task (task1\<lparr>status := ''done'', updated_at := 200\<rparr>))
       = completed task1
   \<and> o_title (from_orm_task (task1\<lparr>status := ''done'', updated_at := 200\<rparr>)) = title task1
   \<and> get_task 2 [task1\<lparr>status := ''done'', updated_at := 200\<rparr>, task2]
       = get_task 2 [task1, task2]"
    by blast
  with u g s c show ?thesis by blast
qed

subsection \<open>Validation of a create request\<close>

lemmas create_defs =
  create_task_def parse_TaskCreate_def new_task_def insert_task_def next_id_def
  from_orm_task_def str_or_def strip_def isspace_def title_length_def priority_pattern_def





text \<open>
  A title of blanks only passes the length check and is stored trimmed, that is empty.
\<close>

lemma create_blank_title_stored:
  "create_task 300 create_blank [] =
     (Inr \<lparr>o_id = 1, o_title = [], o_description = [], o_priority = ''medium'',
           o_status = ''open'', o_dueDate = None, o_completed = False, o_createdAt = 300\<rparr>,
      [\<lparr>task_id = 1, title = [], description = [], priority = ''medium'', status = ''open'',
        due_date = None, completed = False, created_at = 300, updated_at = 300\<rparr>])"
  by (simp add: create_defs create_blank_def)





lemma title_insert_task [simp]: "title (insert_task now t rows) = title t"
  by (simp add: insert_task_def)




subsection \<open>Delete\<close>

lemma get_task_None_iff: "get_task i rows = None \<longleftrightarrow> i \<notin> task_id ` set rows"
  by (auto simp: get_task_def find_None_iff)

lemma set_filter_q: "set (filter_q p rows) \<subseteq> set rows"
  by (auto simp: filter_q_def Let_def split: option.splits)

lemma set_filter_status: "set (filter_status p rows) \<subseteq> set rows"
  by (auto simp: filter_status_def split: option.splits)

lemma set_filter_priority: "set (filter_priority p rows) \<subseteq> set rows"
  by (auto simp: filter_priority_def split: option.splits)

lemma set_filter_completed: "set (filter_completed p rows) \<subseteq> set rows"
  by (auto simp: filter_completed_def)

lemma set_select_tasks: "set (select_tasks p rows) \<subseteq> set rows"
proof -
  have "set (select_tasks p rows)
          \<subseteq> set (filter_completed p (filter_priority p (filter_status p (filter_q p rows))))"
    unfolding select_tasks_def order_by_created_at_desc_def
    using set_take_subset [of "nat (param_default 200 (limit p))"] by (metis set_sort)
  also have "\<dots> \<subseteq> set (filter_priority p (filter_status p (filter_q p rows)))"
    by (rule set_filter_completed)
  also have "\<dots> \<subseteq> set (filter_status p (filter_q p rows))"
    by (rule set_filter_priority)
  also have "\<dots> \<subseteq> set (filter_q p rows)"
    by (rule set_filter_status)
  also have "\<dots> \<subseteq> set rows"
    by (rule set_filter_q)
  finally show ?thesis .
qed

lemma list_tasks_ids:
  assumes "list_tasks p rows = Inr out"
  shows "set (map o_id out) \<subseteq> task_id ` set rows"
proof -
  from assms have "out = map from_orm_task (select_tasks p rows)"
    by (simp add: list_tasks_def split: if_splits)
  then have "set (map o_id out) = task_id ` set (select_tasks p rows)"
    by (simp add: image_image)
  with set_select_tasks [of p rows] show ?thesis by blast
qed

lemma delete_task_found:
  assumes "get_task i rows = Some t"
  shows "delete_task i rows = (Inr (), filter (\<lambda>r. task_id r \<noteq> i) rows)"
  using assms get_task_id [OF assms] by (simp add: delete_task_def)

lemma delete_task_missing:
  "get_task i rows = None \<Longrightarrow> delete_task i rows = (Inl NotFound, rows)"
  by (simp add: delete_task_def)

text \<open>
  C8: deleting an id that is in the table answers 204 with no content and removes the
  row: the id can no longer be fetched, appears in no list result, and a second delete
  of it is a not-found error; the other rows are untouched. Deleting an id that is not
  in the table is a not-found error (404) and leaves the table unchanged.
\<close>

theorem delete_task_removes:
  "(get_task i rows \<noteq> None \<longrightarrow>
      (\<exists>rows'. delete_task i rows = (Inr (), rows')
         \<and> response_code Delete_task (fst (delete_task i rows)) = 204
         \<and> get_task i rows' = None
         \<and> (\<forall>j. j \<noteq> i \<longrightarrow> get_task j rows' = get_task j rows)
         \<and> (\<forall>p out. list_tasks p rows' = Inr out \<longrightarrow> i \<notin> set (map o_id out))
         \<and> delete_task i rows' = (Inl NotFound, rows')))
   \<and> (get_task i rows = None \<longrightarrow>
        delete_task i rows = (Inl NotFound, rows)
        \<and> response_code Delete_task (fst (delete_task i rows)) = 404)"
proof -
  have found: "\<exists>rows'. delete_task i rows = (Inr (), rows')
         \<and> response_code Delete_task (fst (delete_task i rows)) = 204
         \<and> get_task i rows' = None
         \<and> (\<forall>j. j \<noteq> i \<longrightarrow> get_task j rows' = get_task j rows)
         \<and> (\<forall>p out. list_tasks p rows' = Inr out \<longrightarrow> i \<notin> set (map o_id out))
         \<and> delete_task i rows' = (Inl NotFound, rows')"
    if "get_task i rows \<noteq> None"
  proof -
    from that obtain t where t: "get_task i rows = Some t" by blast
    let ?rows' = "filter (\<lambda>r. task_id r \<noteq> i) rows"
    have d: "delete_task i rows = (Inr (), ?rows')"
      using t by (rule delete_task_found)
    then have c: "response_code Delete_task (fst (delete_task i rows)) = 204"
      by (simp add: response_code_def)
    have gone: "get_task i ?rows' = None"
      by (auto simp: get_task_None_iff)
    have others: "\<forall>j. j \<noteq> i \<longrightarrow> get_task j ?rows' = get_task j rows"
      by (induction rows) (auto simp: get_task_def)
    have listed: "\<forall>p out. list_tasks p ?rows' = Inr out \<longrightarrow> i \<notin> set (map o_id out)"
    proof (intro allI impI)
      fix p out
      assume "list_tasks p ?rows' = Inr out"
      then have "set (map o_id out) \<subseteq> task_id ` set ?rows'"
        by (rule list_tasks_ids)
      then show "i \<notin> set (map o_id out)" by auto
    qed
    have again: "delete_task i ?rows' = (Inl NotFound, ?rows')"
      using gone by (rule delete_task_missing)
    from d c gone others listed again show ?thesis by blast
  qed
  have missing: "delete_task i rows = (Inl NotFound, rows)
        \<and> response_code Delete_task (fst (delete_task i rows)) = 404"
    if "get_task i rows = None"
    using delete_task_missing [OF that] by (simp add: response_code_def)
  from found missing show ?thesis by blast
qed

theorem delete_task_removes_witness:
  "get_task 1 [task1, task2] \<noteq> None
   \<and> delete_task 1 [task1, task2] = (Inr (), [task2])
   \<and> response_code Delete_task (fst (delete_task 1 [task1, task2])) = 204
   \<and> delete_task 1 [task2] = (Inl NotFound, [task2])
   \<and> get_task 999 [task1, task2] = None
   \<and> delete_task 999 [task1, task2] = (Inl NotFound, [task1, task2])
   \<and> response_code Delete_task (fst (delete_task 999 [task1, task2])) = 404"
proof -
  have g: "get_task 1 [task1, task2] \<noteq> None"
    by (simp add: get_task_def task1_def)
  have d: "delete_task 1 [task1, task2] = (Inr (), [task2])"
    by (simp add: delete_task_def get_task_def task1_def task2_def)
  have n: "get_task 999 [task1, task2] = None"
    by (simp add: get_task_def task1_def task2_def)
  from delete_task_removes [of 1 "[task1, task2]"] g d
  have a: "response_code Delete_task (fst (delete_task 1 [task1, task2])) = 204
           \<and> delete_task 1 [task2] = (Inl NotFound, [task2])"
    by auto
  from delete_task_removes [of 999 "[task1, task2]"] n
  have b: "delete_task 999 [task1, task2] = (Inl NotFound, [task1, task2])
           \<and> response_code Delete_task (fst (delete_task 999 [task1, task2])) = 404"
    by blast
  from g d n a b show ?thesis by blast
qed

subsection \<open>Order and size of a list result\<close>

lemmas list_defs =
  list_tasks_def check_ListQuery_def select_tasks_def order_by_created_at_desc_def
  filter_q_def filter_status_def filter_priority_def filter_completed_def
  ilike_def lower_def from_orm_task_def str_or_def priority_pattern_def status_pattern_def

lemma sorted_order_by_created_at_desc:
  "sorted_wrt (\<lambda>a b. created_at b \<le> created_at a) (order_by_created_at_desc rows)"
proof -
  have "sorted (map (\<lambda>t. - created_at t) (sort_key (\<lambda>t. - created_at t) rows))"
    by (rule sorted_sort_key)
  then show ?thesis
    by (simp add: order_by_created_at_desc_def sorted_wrt_map)
qed

lemma sorted_select_tasks:
  "sorted_wrt (\<lambda>a b. created_at b \<le> created_at a) (select_tasks p rows)"
  unfolding select_tasks_def
  by (rule sorted_wrt_take) (rule sorted_order_by_created_at_desc)

lemma length_select_tasks:
  "length (select_tasks p rows) =
     min (nat (param_default 200 (limit p)))
         (length (filter_completed p (filter_priority p (filter_status p (filter_q p rows)))))"
  by (simp add: select_tasks_def order_by_created_at_desc_def min.commute)

text \<open>
  C7: a list request with valid parameters returns the matching tasks by creation time,
  latest first, cut to the limit: at most \<open>limit\<close> tasks, 200 when no limit is given.
  A limit below 1 or above 1000 is a validation error.
\<close>

theorem list_tasks_ordered_limited:
  "(check_ListQuery p \<longrightarrow>
      (\<exists>out. list_tasks p rows = Inr out
         \<and> sorted_wrt (\<lambda>a b. o_createdAt b \<le> o_createdAt a) out
         \<and> int (length out) \<le> param_default 200 (limit p)
         \<and> (limit p = None \<longrightarrow> length out \<le> 200)
         \<and> length out = min (nat (param_default 200 (limit p)))
              (length (filter_completed p (filter_priority p (filter_status p (filter_q p rows)))))))
   \<and> (param_default 200 (limit p) < 1 \<or> 1000 < param_default 200 (limit p)
        \<longrightarrow> list_tasks p rows = Inl ValidationError)"
proof -
  have ok: "\<exists>out. list_tasks p rows = Inr out
         \<and> sorted_wrt (\<lambda>a b. o_createdAt b \<le> o_createdAt a) out
         \<and> int (length out) \<le> param_default 200 (limit p)
         \<and> (limit p = None \<longrightarrow> length out \<le> 200)
         \<and> length out = min (nat (param_default 200 (limit p)))
              (length (filter_completed p (filter_priority p (filter_status p (filter_q p rows)))))"
    if c: "check_ListQuery p"
  proof -
    let ?out = "map from_orm_task (select_tasks p rows)"
    have r: "list_tasks p rows = Inr ?out"
      using c by (simp add: list_tasks_def)
    have s: "sorted_wrt (\<lambda>a b. o_createdAt b \<le> o_createdAt a) ?out"
      using sorted_select_tasks [of p rows] by (simp add: sorted_wrt_map)
    have len: "length ?out = min (nat (param_default 200 (limit p)))
              (length (filter_completed p (filter_priority p (filter_status p (filter_q p rows)))))"
      by (simp add: length_select_tasks)
    from c have pos: "1 \<le> param_default 200 (limit p)"
      by (simp add: check_ListQuery_def)
    from len have "length ?out \<le> nat (param_default 200 (limit p))" by simp
    with pos have l: "int (length ?out) \<le> param_default 200 (limit p)" by linarith
    then have d: "limit p = None \<longrightarrow> length ?out \<le> 200" by auto
    from r s l d len show ?thesis
      by - (rule exI [of _ ?out], (intro conjI; assumption))
  qed
  have bad: "list_tasks p rows = Inl ValidationError"
    if "param_default 200 (limit p) < 1 \<or> 1000 < param_default 200 (limit p)"
    using that by (auto simp: list_tasks_def check_ListQuery_def)
  from ok bad show ?thesis by blast
qed

theorem list_tasks_ordered_limited_witness:
  "check_ListQuery query_all
   \<and> list_tasks query_all [task1, task2] = Inr [from_orm_task task2, from_orm_task task1]
   \<and> o_createdAt (from_orm_task task1) \<le> o_createdAt (from_orm_task task2)
   \<and> check_ListQuery (query_all\<lparr>limit := Some 1\<rparr>)
   \<and> list_tasks (query_all\<lparr>limit := Some 1\<rparr>) [task1, task2] = Inr [from_orm_task task2]
   \<and> list_tasks (query_all\<lparr>limit := Some 0\<rparr>) [task1, task2] = Inl ValidationError
   \<and> list_tasks (query_all\<lparr>limit := Some 1001\<rparr>) [task1, task2] = Inl ValidationError"
proof -
  have c: "check_ListQuery query_all"
    and c1: "check_ListQuery (query_all\<lparr>limit := Some 1\<rparr>)"
    by (simp_all add: check_ListQuery_def query_all_def)
  have r: "list_tasks query_all [task1, task2] = Inr [from_orm_task task2, from_orm_task task1]"
    by (simp add: list_defs query_all_def task1_def task2_def)
  have r1: "list_tasks (query_all\<lparr>limit := Some 1\<rparr>) [task1, task2] = Inr [from_orm_task task2]"
    by (simp add: list_defs query_all_def task1_def task2_def)
  from list_tasks_ordered_limited [of query_all "[task1, task2]"] c r
  have s: "o_createdAt (from_orm_task task1) \<le> o_createdAt (from_orm_task task2)"
    by simp
  have "param_default 200 (limit (query_all\<lparr>limit := Some 0\<rparr>)) < 1"
    by simp
  with list_tasks_ordered_limited [of "query_all\<lparr>limit := Some 0\<rparr>" "[task1, task2]"]
  have b0: "list_tasks (query_all\<lparr>limit := Some 0\<rparr>) [task1, task2] = Inl ValidationError"
    by blast
  have "1000 < param_default 200 (limit (query_all\<lparr>limit := Some 1001\<rparr>))"
    by simp
  with list_tasks_ordered_limited [of "query_all\<lparr>limit := Some 1001\<rparr>" "[task1, task2]"]
  have b1: "list_tasks (query_all\<lparr>limit := Some 1001\<rparr>) [task1, task2] = Inl ValidationError"
    by blast
  from c c1 r r1 s b0 b1 show ?thesis by blast
qed

subsection \<open>Diagnostic probe\<close>

text \<open>
  C9: the probe never raises. Whatever the connectivity check did, the handler returns
  its diagnostic object under status 200; the object reports \<open>connected\<close> when the query
  returned, and the first 120 characters of the error text, after \<open>error: \<close>, when
  connecting or querying raised.
\<close>

theorem test_database_never_raises:
  "\<exists>info. test_database url dialect outcome = Inr info
      \<and> response_code Test_database (test_database url dialect outcome) = 200
      \<and> backend info = ''running''
      \<and> database_url info = url
      \<and> driver info = dialect
      \<and> database info = (case outcome of
                            Returned \<Rightarrow> ''connected''
                          | Raised e \<Rightarrow> ''error: '' @ take 120 e)"
  by (cases outcome) (simp_all add: test_database_def response_code_def)

subsection \<open>The filter of a list request\<close>

text \<open>
  The pattern \<^verbatim>\<open>%s%\<close> of \<^verbatim>\<open>LIKE\<close> asks for the substring \<open>s\<close>, as long as \<open>s\<close>
  holds no pattern character itself.
\<close>

lemma like_percent: "like ''%'' s"
  by (induction s) simp_all

lemma like_plain_append:
  "plain s \<Longrightarrow> like (s @ r) cs \<longleftrightarrow> (\<exists>t. cs = s @ t \<and> like r t)"
proof (induction s arbitrary: cs)
  case Nil
  then show ?case by simp
next
  case (Cons a s)
  then have a: "a \<noteq> CHR ''%''" "a \<noteq> CHR ''_''" and s: "plain s"
    by (auto simp: plain_def)
  show ?case
  proof (cases cs)
    case Nil
    with a show ?thesis by simp
  next
    case (Cons c cs')
    with a Cons.IH [OF s, of cs'] show ?thesis by auto
  qed
qed

lemma like_plain_prefix: "plain s \<Longrightarrow> like (s @ ''%'') cs \<longleftrightarrow> prefix s cs"
  by (auto simp: like_plain_append like_percent prefix_def)

lemma like_percent_Cons:
  "like (CHR ''%'' # r) cs \<longleftrightarrow> (\<exists>pre t. cs = pre @ t \<and> like r t)"
proof (induction cs)
  case Nil
  then show ?case by simp
next
  case (Cons c cs)
  have "(\<exists>pre t. c # cs = pre @ t \<and> like r t)
          \<longleftrightarrow> like r (c # cs) \<or> (\<exists>pre t. cs = pre @ t \<and> like r t)"
    by (auto simp: Cons_eq_append_conv)
  with Cons show ?case by simp
qed

lemma like_contains: 
  assumes "plain s"
  shows "like (CHR ''%'' # s @ ''%'') cs \<longleftrightarrow> sublist s cs"
proof -
  have "like (CHR ''%'' # s @ ''%'') cs \<longleftrightarrow> (\<exists>pre t. cs = pre @ t \<and> prefix s t)"
    using like_plain_prefix [OF assms] by (simp add: like_percent_Cons)
  also have "\<dots> \<longleftrightarrow> sublist s cs"
    by (auto simp: sublist_def prefix_def)
  finally show ?thesis .
qed

lemma lower_percent: "lower c = CHR ''%'' \<longleftrightarrow> c = CHR ''%''"
  by (auto simp: lower_def split: option.splits if_splits)

lemma lower_underscore: "lower c = CHR ''_'' \<longleftrightarrow> c = CHR ''_''"
  by (auto simp: lower_def split: option.splits if_splits)

lemma plain_map_lower: "plain s \<Longrightarrow> plain (map lower s)"
  unfolding plain_def set_map by (metis imageE lower_percent lower_underscore)

lemma ilike_contains:
  assumes "plain s"
  shows "ilike column (CHR ''%'' # s @ ''%'') \<longleftrightarrow> sublist (map lower s) (map lower column)"
proof -
  have "lower (CHR ''%'') = CHR ''%''"
    by (simp add: lower_percent)
  then have "map lower (CHR ''%'' # s @ ''%'') = CHR ''%'' # map lower s @ ''%''"
    by simp
  then show ?thesis
    unfolding ilike_def using like_contains [OF plain_map_lower [OF assms]] by simp
qed


lemma filter_q_spec:
  assumes "\<forall>s. q p = Some s \<longrightarrow> plain s"
  shows "filter_q p rows =
           filter (\<lambda>t. case q p of
                          None \<Rightarrow> True
                        | Some s \<Rightarrow> sublist (map lower s) (map lower (title t))
                                    \<or> sublist (map lower s) (map lower (description t))) rows"
proof (cases "q p")
  case None
  then show ?thesis by (simp add: filter_q_def)
next
  case (Some s)
  with assms have "plain s" by simp
  then show ?thesis
    using Some by (simp add: filter_q_def Let_def ilike_contains)
qed

lemma filter_status_spec:
  assumes "check_ListQuery p"
  shows "filter_status p rows =
           filter (\<lambda>t. case status_param p of None \<Rightarrow> True | Some s \<Rightarrow> status t = s) rows"
  using assms
  by (auto simp: filter_status_def check_ListQuery_def status_pattern_def split: option.splits)

lemma filter_priority_spec:
  assumes "check_ListQuery p"
  shows "filter_priority p rows =
           filter (\<lambda>t. case priority_param p of None \<Rightarrow> True | Some s \<Rightarrow> priority t = s) rows"
  using assms
  by (auto simp: filter_priority_def check_ListQuery_def priority_pattern_def split: option.splits)

lemma filter_completed_spec:
  "filter_completed p rows =
     filter (\<lambda>t. param_default True (show_completed p) \<or> \<not> completed t) rows"
  by (simp add: filter_completed_def)

lemma filters_spec:
  assumes "check_ListQuery p" and "\<forall>s. q p = Some s \<longrightarrow> plain s"
  shows "filter_completed p (filter_priority p (filter_status p (filter_q p rows)))
           = filter (spec_matches p) rows"
proof -
  have "filter_completed p (filter_priority p (filter_status p (filter_q p rows)))
      = filter (\<lambda>t. param_default True (show_completed p) \<or> \<not> completed t)
          (filter (\<lambda>t. case priority_param p of None \<Rightarrow> True | Some s \<Rightarrow> priority t = s)
            (filter (\<lambda>t. case status_param p of None \<Rightarrow> True | Some s \<Rightarrow> status t = s)
              (filter (\<lambda>t. case q p of
                          None \<Rightarrow> True
                        | Some s \<Rightarrow> sublist (map lower s) (map lower (title t))
                                    \<or> sublist (map lower s) (map lower (description t))) rows)))"
    by (simp only: filter_completed_spec filter_priority_spec [OF assms(1)]
          filter_status_spec [OF assms(1)] filter_q_spec [OF assms(2)])
  also have "\<dots> = filter (spec_matches p) rows"
    unfolding filter_filter spec_matches_def by (rule filter_cong) auto
  finally show ?thesis .
qed

text \<open>
  For a query text that holds neither \<^verbatim>\<open>%\<close> nor \<^verbatim>\<open>_\<close> the handler filters as
  specified, with case-insensitivity read as SQL \<^verbatim>\<open>lower\<close> computes it: the result
  is the tasks that pass the specified filter, latest first, cut to the limit.
\<close>

lemma list_tasks_plain_query:
  assumes "check_ListQuery p" and "\<forall>s. q p = Some s \<longrightarrow> plain s"
  shows "list_tasks p rows =
           Inr (map from_orm_task
                  (take (nat (param_default 200 (limit p)))
                     (order_by_created_at_desc (filter (spec_matches p) rows))))"
  using assms(1) filters_spec [OF assms]
  by (simp add: list_tasks_def select_tasks_def)

lemma list_tasks_plain_query_example:
  "check_ListQuery query_milk
   \<and> q query_milk = Some ''MILK'' \<and> plain ''MILK''
   \<and> spec_matches query_milk task1 \<and> \<not> spec_matches query_milk task2
   \<and> list_tasks query_milk [task1, task2] = Inr [from_orm_task task1]"
proof -
  have c: "check_ListQuery query_milk"
    by (simp add: check_ListQuery_def query_milk_def query_all_def status_pattern_def)
  have qq: "q query_milk = Some ''MILK''"
    by (simp add: query_milk_def query_all_def)
  have pl: "plain ''MILK''"
    by (simp add: plain_def)
  with qq have h: "\<forall>s. q query_milk = Some s \<longrightarrow> plain s"
    by simp
  have m1: "spec_matches query_milk task1"
    by (simp add: spec_matches_def query_milk_def query_all_def task1_def lower_def
        sublist_code prefix_code)
  have m2: "\<not> spec_matches query_milk task2"
    by (simp add: spec_matches_def query_milk_def query_all_def task2_def)
  have l: "param_default 200 (limit query_milk) = 200"
    by (simp add: query_milk_def query_all_def)
  from list_tasks_plain_query [OF c h, of "[task1, task2]"] m1 m2 l
  have "list_tasks query_milk [task1, task2] = Inr [from_orm_task task1]"
    by (simp add: order_by_created_at_desc_def)
  with c qq pl m1 m2 show ?thesis by blast
qed

text \<open>
  C6: the claim says that a task matches the query text exactly when the text is a
  substring of its title or of its description. The handler puts the text into the
  pattern as it is, without escaping, so the characters \<^verbatim>\<open>%\<close> and \<^verbatim>\<open>_\<close> of the text
  act as wildcards: the query \<^verbatim>\<open>_\<close> lists a task although no character of its title
  or of its description is an underscore.
\<close>

theorem list_tasks_wildcard_failing_input:
  "check_ListQuery query_underscore
   \<and> q query_underscore = Some ''_''
   \<and> CHR ''_'' \<notin> set (title task1)
   \<and> CHR ''_'' \<notin> set (description task1)
   \<and> \<not> sublist ''_'' (title task1)
   \<and> \<not> sublist ''_'' (description task1)
   \<and> \<not> sublist (map lower ''_'') (map lower (title task1))
   \<and> \<not> sublist (map lower ''_'') (map lower (description task1))
   \<and> list_tasks query_underscore [task1] = Inr [from_orm_task task1]"
  by (simp add: list_defs query_underscore_def query_all_def task1_def
      sublist_code prefix_code)

end
